theory Spec2Isabelle
  imports Complex_Main "HOL-Library.Word" "HOL-Library.AList"
begin

section \<open>Conflicting transaction builder (bitcoin-beast-framework.js)\<close>

text \<open>
  JavaScript numbers that hold satoshi amounts, output indices and timestamps are modelled
  as mathematical integers (exact for IEEE doubles below \<open>2 ^ 53\<close>). The request's
  \<open>fee_rate\<close> is modelled for integral rates; the factor \<open>1.5\<close> is the rational
  \<open>3 / 2\<close>, and \<open>Math.ceil\<close> is the ceiling.

  The handlers call bitcoinjs-lib, which is not part of the repository. Every call that can
  throw is a parameter of the model (a field of \<open>bitcoinjs\<close>): \<open>Some m\<close> means the
  library throws an error with message \<open>m\<close>.
\<close>

datatype network = Testnet | Mainnet

definition NETWORKS :: "string \<Rightarrow> network option" where
  "NETWORKS name =
     (if name = ''testnet'' then Some Testnet
      else if name = ''mainnet'' then Some Mainnet
      else None)"

record utxo_desc =
  utxo_txid :: string
  utxo_vout :: nat
  utxo_value :: int

record tx_in =
  in_hash :: string
  in_index :: nat
  in_sequence :: "32 word"
  in_witness_script :: string
  in_witness_value :: int

record tx_out =
  out_address :: string
  out_value :: int

record psbt =
  psbt_ins :: "tx_in list"
  psbt_outs :: "tx_out list"

record bitcoinjs =
  fromWIF_ok :: "string \<Rightarrow> network option \<Rightarrow> bool"
  toOutputScript_ok :: "string \<Rightarrow> network option \<Rightarrow> bool"
  addInput_throws :: "psbt \<Rightarrow> tx_in \<Rightarrow> string option"
  addOutput_throws :: "psbt \<Rightarrow> tx_out \<Rightarrow> string option"
  signInput_throws :: "psbt \<Rightarrow> string \<Rightarrow> string option"
  extract_throws :: "psbt \<Rightarrow> string option"

definition validateAddress :: "bitcoinjs \<Rightarrow> string \<Rightarrow> network option \<Rightarrow> bool" where
  "validateAddress L address net = toOutputScript_ok L address net"

definition validateWIF :: "bitcoinjs \<Rightarrow> string \<Rightarrow> network option \<Rightarrow> bool" where
  "validateWIF L wif net = fromWIF_ok L wif net"

text \<open>A thrown error is \<open>Inl message\<close>; \<open>thenE\<close> sequences two statements of a try block.\<close>

definition thenE :: "string + 'a \<Rightarrow> ('a \<Rightarrow> string + 'b) \<Rightarrow> string + 'b" where
  "thenE r f = (case r of Inl m \<Rightarrow> Inl m | Inr x \<Rightarrow> f x)"

definition new_Psbt :: psbt where
  "new_Psbt = \<lparr>psbt_ins = [], psbt_outs = []\<rparr>"

definition addInput :: "bitcoinjs \<Rightarrow> tx_in \<Rightarrow> psbt \<Rightarrow> string + psbt" where
  "addInput L i p =
     (case addInput_throws L p i of
        Some m \<Rightarrow> Inl m
      | None \<Rightarrow> Inr (p\<lparr>psbt_ins := psbt_ins p @ [i]\<rparr>))"

definition addOutput :: "bitcoinjs \<Rightarrow> tx_out \<Rightarrow> psbt \<Rightarrow> string + psbt" where
  "addOutput L out p =
     (case addOutput_throws L p out of
        Some m \<Rightarrow> Inl m
      | None \<Rightarrow> Inr (p\<lparr>psbt_outs := psbt_outs p @ [out]\<rparr>))"

text \<open>\<open>psbt.signInput(0, keyPair).finalizeAllInputs()\<close>: the signature is not modelled.\<close>

definition signInput_finalize :: "bitcoinjs \<Rightarrow> string \<Rightarrow> psbt \<Rightarrow> string + psbt" where
  "signInput_finalize L wif p =
     (case signInput_throws L p wif of Some m \<Rightarrow> Inl m | None \<Rightarrow> Inr p)"

text \<open>
  \<open>psbt.extractTransaction()\<close>: the transaction is represented by its inputs and outputs;
  \<open>getId()\<close> and \<open>toHex()\<close> are functions of it and of the signature.
\<close>

definition extractTransaction :: "bitcoinjs \<Rightarrow> psbt \<Rightarrow> string + psbt" where
  "extractTransaction L p =
     (case extract_throws L p of Some m \<Rightarrow> Inl m | None \<Rightarrow> Inr p)"

text \<open>
  One candidate, as each handler writes it out: a fresh Psbt, one input spending the
  outpoint with the given sequence, one output paying \<open>utxo.value - fee\<close> to the
  destination, then sign, finalize and extract.
\<close>

definition build_candidate ::
  "bitcoinjs \<Rightarrow> string \<Rightarrow> utxo_desc \<Rightarrow> 32 word \<Rightarrow> string \<Rightarrow> int \<Rightarrow> string + psbt" where
  "build_candidate L wif utxo seq dest fee =
     thenE (addInput L
              \<lparr>in_hash = utxo_txid utxo, in_index = utxo_vout utxo, in_sequence = seq,
               in_witness_script = dest, in_witness_value = utxo_value utxo\<rparr> new_Psbt) (\<lambda>p.
     thenE (addOutput L \<lparr>out_address = dest, out_value = utxo_value utxo - fee\<rparr> p) (\<lambda>p.
     thenE (signInput_finalize L wif p) (\<lambda>p.
     extractTransaction L p)))"

datatype 'a reply = Error_json nat string | Ok_json 'a

definition falsy :: "string option \<Rightarrow> bool" where
  "falsy s = (s = None \<or> s = Some [])"

subsection \<open>POST /api/final-sequence-attack\<close>

text \<open>
  The reply carries each candidate's transaction (standing for its \<open>txid\<close> and \<open>hex\<close>),
  destination, sequence label, fee and broadcast target; the constant explanatory fields
  of the reply are left out. An exception in the try block is answered by the catch-all
  with status 500 and the exception's message.
\<close>

record fsa_request =
  fsa_wif :: "string option"
  fsa_utxo :: "utxo_desc option"
  fsa_victim_address :: "string option"
  fsa_attacker_address :: "string option"
  fsa_network :: "string option"
  fsa_fee_rate :: "int option"

record candidate =
  cand_tx :: psbt
  cand_destination :: string
  cand_sequence :: string
  cand_fee :: int
  cand_broadcast_target :: string

record fsa_body =
  tx_merchant :: candidate
  tx_attacker :: candidate

definition tx1_fee_of :: "int \<Rightarrow> int" where
  "tx1_fee_of fee_rate = \<lceil>150 * (of_int fee_rate :: rat)\<rceil>"

definition tx2_fee_of :: "int \<Rightarrow> int" where
  "tx2_fee_of fee_rate = \<lceil>150 * ((of_int fee_rate :: rat) * (3 / 2))\<rceil>"

definition final_sequence_attack :: "bitcoinjs \<Rightarrow> fsa_request \<Rightarrow> fsa_body reply" where
  "final_sequence_attack L req =
     (let network = (case fsa_network req of None \<Rightarrow> ''testnet'' | Some n \<Rightarrow> n);
          fee_rate = (case fsa_fee_rate req of None \<Rightarrow> 15 | Some r \<Rightarrow> r);
          net = NETWORKS network
      in if falsy (fsa_wif req) \<or> fsa_utxo req = None \<or> falsy (fsa_victim_address req)
            \<or> falsy (fsa_attacker_address req)
         then Error_json 400 ''Missing required fields: wif, utxo, victim_address, attacker_address''
         else
          let wif = the (fsa_wif req); utxo = the (fsa_utxo req);
              victim_address = the (fsa_victim_address req);
              attacker_address = the (fsa_attacker_address req)
          in if \<not> validateWIF L wif net then Error_json 400 ''Invalid WIF for network''
             else if \<not> validateAddress L victim_address net
                     \<or> \<not> validateAddress L attacker_address net
             then Error_json 400 ''Invalid address(es) for network''
             else
              let tx1_fee = tx1_fee_of fee_rate;
                  tx2_fee = tx2_fee_of fee_rate
              in case thenE (build_candidate L wif utxo 0xffffffff victim_address tx1_fee) (\<lambda>tx1.
                      thenE (build_candidate L wif utxo 0xfffffffe attacker_address tx2_fee) (\<lambda>tx2.
                      Inr \<lparr>tx_merchant =
                             \<lparr>cand_tx = tx1, cand_destination = victim_address,
                              cand_sequence = ''0xffffffff (won't opt-in to RBF)'',
                              cand_fee = tx1_fee, cand_broadcast_target = ''merchant_nodes''\<rparr>,
                           tx_attacker =
                             \<lparr>cand_tx = tx2, cand_destination = attacker_address,
                              cand_sequence = ''0xfffffffe (RBF enabled)'',
                              cand_fee = tx2_fee, cand_broadcast_target = ''mining_pools''\<rparr>\<rparr>))
                 of Inl message \<Rightarrow> Error_json 500 message
                  | Inr body \<Rightarrow> Ok_json body)"

subsection \<open>POST /api/identical-inputs-exploit\<close>

record iie_request =
  iie_wif :: "string option"
  iie_utxos :: "utxo_desc list option"
  iie_merchant_address :: "string option"
  iie_attacker_address :: "string option"
  iie_network :: "string option"

record shared_inputs =
  shared_txid :: string
  shared_vout :: nat
  shared_value :: int

record pair_candidate =
  pc_tx :: psbt
  pc_output :: string
  pc_fee :: int

record tx_pair =
  utxo_index :: nat
  inputs :: shared_inputs
  pair_merchant :: pair_candidate
  pair_attacker :: pair_candidate

text \<open>
  The body of \<open>utxos.forEach((utxo, utxo_idx) => ...)\<close>; \<open>transactions\<close> is the array
  the loop pushes to. A throw inside the loop leaves the whole handler.
\<close>

fun build_pairs ::
  "bitcoinjs \<Rightarrow> string \<Rightarrow> string \<Rightarrow> string \<Rightarrow> nat \<Rightarrow> utxo_desc list \<Rightarrow> tx_pair list
     \<Rightarrow> string + tx_pair list" where
  "build_pairs L wif merchant_address attacker_address utxo_idx [] transactions =
     Inr transactions"
| "build_pairs L wif merchant_address attacker_address utxo_idx (utxo # rest) transactions =
     (case build_candidate L wif utxo 0xffffffff merchant_address 3000 of
        Inl m \<Rightarrow> Inl m
      | Inr tx1 \<Rightarrow>
         (case build_candidate L wif utxo 0xfffffffe attacker_address 5000 of
            Inl m \<Rightarrow> Inl m
          | Inr tx2 \<Rightarrow>
             build_pairs L wif merchant_address attacker_address (Suc utxo_idx) rest
               (transactions @
                [\<lparr>utxo_index = utxo_idx,
                  inputs = \<lparr>shared_txid = utxo_txid utxo, shared_vout = utxo_vout utxo,
                            shared_value = utxo_value utxo\<rparr>,
                  pair_merchant = \<lparr>pc_tx = tx1, pc_output = merchant_address, pc_fee = 3000\<rparr>,
                  pair_attacker = \<lparr>pc_tx = tx2, pc_output = attacker_address, pc_fee = 5000\<rparr>\<rparr>])))"

definition identical_inputs_exploit :: "bitcoinjs \<Rightarrow> iie_request \<Rightarrow> tx_pair list reply" where
  "identical_inputs_exploit L req =
     (let network = (case iie_network req of None \<Rightarrow> ''testnet'' | Some n \<Rightarrow> n);
          net = NETWORKS network
      in if falsy (iie_wif req) \<or> iie_utxos req = None \<or> falsy (iie_merchant_address req)
            \<or> falsy (iie_attacker_address req)
         then Error_json 400 ''Missing fields''
         else
          let wif = the (iie_wif req); utxos = the (iie_utxos req);
              merchant_address = the (iie_merchant_address req);
              attacker_address = the (iie_attacker_address req)
          in if \<not> validateWIF L wif net then Error_json 400 ''Invalid WIF''
             else if \<not> validateAddress L merchant_address net
                     \<or> \<not> validateAddress L attacker_address net
             then Error_json 400 ''Invalid address''
             else
              case build_pairs L wif merchant_address attacker_address 0 utxos [] of
                Inl message \<Rightarrow> Error_json 500 message
              | Inr transactions \<Rightarrow> Ok_json transactions)"

subsection \<open>A concrete library and concrete requests\<close>

text \<open>
  An instance of the library parameter used to run the handlers on concrete requests: it
  accepts every non-empty key and address on a known network, and its \<open>addOutput\<close>
  throws on a negative amount (bitcoinjs-lib type-checks output values as unsigned).
\<close>

definition lib_typical :: bitcoinjs where
  "lib_typical =
     \<lparr>fromWIF_ok = (\<lambda>wif net. wif \<noteq> [] \<and> net \<noteq> None),
      toOutputScript_ok = (\<lambda>address net. address \<noteq> [] \<and> net \<noteq> None),
      addInput_throws = (\<lambda>p i. None),
      addOutput_throws = (\<lambda>p out. if out_value out < 0 then Some ''Expected Satoshi'' else None),
      signInput_throws = (\<lambda>p wif. None),
      extract_throws = (\<lambda>p. None)\<rparr>"

definition request_of_value :: "int \<Rightarrow> fsa_request" where
  "request_of_value v =
     \<lparr>fsa_wif = Some ''cKey'',
      fsa_utxo = Some \<lparr>utxo_txid = ''ab12'', utxo_vout = 0, utxo_value = v\<rparr>,
      fsa_victim_address = Some ''tb1qvictim'',
      fsa_attacker_address = Some ''tb1qattacker'',
      fsa_network = None,
      fsa_fee_rate = Some 15\<rparr>"

definition pairs_request :: iie_request where
  "pairs_request =
     \<lparr>iie_wif = Some ''cKey'',
      iie_utxos = Some [\<lparr>utxo_txid = ''ab12'', utxo_vout = 0, utxo_value = 100000\<rparr>,
                        \<lparr>utxo_txid = ''cd34'', utxo_vout = 1, utxo_value = 50000\<rparr>],
      iie_merchant_address = Some ''tb1qmerchant'',
      iie_attacker_address = Some ''tb1qattacker'',
      iie_network = Some ''testnet''\<rparr>"

subsection \<open>Notions used to state the builder's properties\<close>

text \<open>The outpoint an input spends.\<close>

definition outpoint :: "tx_in \<Rightarrow> string \<times> nat" where
  "outpoint i = (in_hash i, in_index i)"


text \<open>What holds of every pair that the loop of the identical-inputs handler pushes.\<close>

definition pair_ok :: "tx_pair \<Rightarrow> bool" where
  "pair_ok p =
     (map in_sequence (psbt_ins (pc_tx (pair_merchant p))) = [0xffffffff] \<and>
      map in_sequence (psbt_ins (pc_tx (pair_attacker p))) = [0xfffffffe] \<and>
      map outpoint (psbt_ins (pc_tx (pair_merchant p))) = [(shared_txid (inputs p), shared_vout (inputs p))] \<and>
      map outpoint (psbt_ins (pc_tx (pair_attacker p))) = [(shared_txid (inputs p), shared_vout (inputs p))] \<and>
      sum_list (map out_value (psbt_outs (pc_tx (pair_merchant p)))) + pc_fee (pair_merchant p)
        = shared_value (inputs p) \<and>
      sum_list (map out_value (psbt_outs (pc_tx (pair_attacker p)))) + pc_fee (pair_attacker p)
        = shared_value (inputs p))"

text \<open>The replies of the two handlers on the concrete requests, written out.\<close>

definition scenario_body :: "int \<Rightarrow> int \<Rightarrow> int \<Rightarrow> fsa_body" where
  "scenario_body v fee1 fee2 =
     \<lparr>tx_merchant =
        \<lparr>cand_tx =
           \<lparr>psbt_ins = [\<lparr>in_hash = ''ab12'', in_index = 0, in_sequence = 0xffffffff,
                          in_witness_script = ''tb1qvictim'', in_witness_value = v\<rparr>],
            psbt_outs = [\<lparr>out_address = ''tb1qvictim'', out_value = v - fee1\<rparr>]\<rparr>,
         cand_destination = ''tb1qvictim'',
         cand_sequence = ''0xffffffff (won't opt-in to RBF)'',
         cand_fee = fee1, cand_broadcast_target = ''merchant_nodes''\<rparr>,
      tx_attacker =
        \<lparr>cand_tx =
           \<lparr>psbt_ins = [\<lparr>in_hash = ''ab12'', in_index = 0, in_sequence = 0xfffffffe,
                          in_witness_script = ''tb1qattacker'', in_witness_value = v\<rparr>],
            psbt_outs = [\<lparr>out_address = ''tb1qattacker'', out_value = v - fee2\<rparr>]\<rparr>,
         cand_destination = ''tb1qattacker'',
         cand_sequence = ''0xfffffffe (RBF enabled)'',
         cand_fee = fee2, cand_broadcast_target = ''mining_pools''\<rparr>\<rparr>"

definition pairs_body :: "tx_pair list" where
  "pairs_body =
     [\<lparr>utxo_index = 0,
       inputs = \<lparr>shared_txid = ''ab12'', shared_vout = 0, shared_value = 100000\<rparr>,
       pair_merchant =
         \<lparr>pc_tx = \<lparr>psbt_ins = [\<lparr>in_hash = ''ab12'', in_index = 0, in_sequence = 0xffffffff,
                                  in_witness_script = ''tb1qmerchant'', in_witness_value = 100000\<rparr>],
                    psbt_outs = [\<lparr>out_address = ''tb1qmerchant'', out_value = 97000\<rparr>]\<rparr>,
          pc_output = ''tb1qmerchant'', pc_fee = 3000\<rparr>,
       pair_attacker =
         \<lparr>pc_tx = \<lparr>psbt_ins = [\<lparr>in_hash = ''ab12'', in_index = 0, in_sequence = 0xfffffffe,
                                  in_witness_script = ''tb1qattacker'', in_witness_value = 100000\<rparr>],
                    psbt_outs = [\<lparr>out_address = ''tb1qattacker'', out_value = 95000\<rparr>]\<rparr>,
          pc_output = ''tb1qattacker'', pc_fee = 5000\<rparr>\<rparr>,
      \<lparr>utxo_index = 1,
       inputs = \<lparr>shared_txid = ''cd34'', shared_vout = 1, shared_value = 50000\<rparr>,
       pair_merchant =
         \<lparr>pc_tx = \<lparr>psbt_ins = [\<lparr>in_hash = ''cd34'', in_index = 1, in_sequence = 0xffffffff,
                                  in_witness_script = ''tb1qmerchant'', in_witness_value = 50000\<rparr>],
                    psbt_outs = [\<lparr>out_address = ''tb1qmerchant'', out_value = 47000\<rparr>]\<rparr>,
          pc_output = ''tb1qmerchant'', pc_fee = 3000\<rparr>,
       pair_attacker =
         \<lparr>pc_tx = \<lparr>psbt_ins = [\<lparr>in_hash = ''cd34'', in_index = 1, in_sequence = 0xfffffffe,
                                  in_witness_script = ''tb1qattacker'', in_witness_value = 50000\<rparr>],
                    psbt_outs = [\<lparr>out_address = ''tb1qattacker'', out_value = 45000\<rparr>]\<rparr>,
          pc_output = ''tb1qattacker'', pc_fee = 5000\<rparr>\<rparr>]"

section \<open>Wallet engine (wallet-engine.js)\<close>

text \<open>
  What the indexer returns. A field that may be missing is an option; \<open>status\<close> itself
  may be missing, which the route handlers guard against and the engine does not.
\<close>

record api_status =
  st_confirmed :: bool
  st_block_height :: "nat option"
  st_block_time :: "nat option"

record api_utxo =
  au_txid :: string
  au_vout :: nat
  au_value :: int
  au_status :: "api_status option"

record api_vout =
  vo_scriptpubkey_address :: "string option"
  vo_value :: int

record api_tx =
  at_txid :: string
  at_fee :: int
  at_vsize :: int
  at_rbf :: "bool option"
  at_vout :: "api_vout list option"

text \<open>JavaScript truthiness of an optional number: missing and \<open>0\<close> are falsy.\<close>

definition truthy_num :: "nat option \<Rightarrow> bool" where
  "truthy_num h = (h \<noteq> None \<and> h \<noteq> Some 0)"

definition or_null :: "nat option \<Rightarrow> nat option" where
  "or_null h = (if truthy_num h then h else None)"

record utxo =
  u_txid :: string
  u_vout :: nat
  u_value :: int
  u_confirmations :: int
  u_block_height :: "nat option"
  u_block_time :: "nat option"
  u_is_confirmed :: bool
  u_is_pending :: bool

text \<open>
  The entry of \<open>mempool_txs[address]\<close>; the floating-point \<open>fee_rate\<close>
  (\<open>tx.fee / tx.vsize\<close>) is left out.
\<close>

record mempool_tx =
  m_txid :: string
  m_confirmations :: int
  m_fee :: int
  m_vsize :: int
  m_rbf :: bool
  m_timestamp :: int
  m_status :: string
  m_is_incoming :: bool
  m_amount :: int

datatype ready_state = CONNECTING | OPEN | CLOSING | CLOSED

record socket =
  sock_address :: string
  sock_state :: ready_state

text \<open>
  The engine object, and the part of the Node runtime its methods act on: the WebSocket
  objects it has created (numbered in creation order, each with the address its handlers
  close over), the pending \<open>setTimeout\<close> callbacks (each a call of
  \<open>startWebSocketMonitor(address)\<close>, all with the same delay, so first in first out),
  and whether a listener for the \<open>error\<close> event is registered (an EventEmitter
  throws when \<open>error\<close> is emitted with no listener; the repository registers none).
  Events other than \<open>error\<close> have no listener and no effect, so emitting them is not
  modelled; the configuration fields the modelled methods never read are left out.
\<close>

record engine =
  eng_network :: string
  addresses :: "string list"
  utxos :: "string \<rightharpoonup> utxo list"
  transactions :: "string \<rightharpoonup> unit list"
  mempool_txs :: "string \<rightharpoonup> (string \<times> mempool_tx) list"
  min_confirmations_spendable :: int
  websockets :: "string \<rightharpoonup> nat"
  sockets :: "nat \<rightharpoonup> socket"
  sockets_created :: nat
  retry_timers :: "string list"
  error_listener :: bool

definition new_engine :: "string \<Rightarrow> engine" where
  "new_engine network =
     \<lparr>eng_network = network, addresses = [], utxos = Map.empty, transactions = Map.empty,
      mempool_txs = Map.empty, min_confirmations_spendable = 1, websockets = Map.empty,
      sockets = Map.empty, sockets_created = 0, retry_timers = [], error_listener = False\<rparr>"


definition addAddress :: "string \<Rightarrow> engine \<Rightarrow> engine" where
  "addAddress address s =
     (if address \<notin> set (addresses s)
      then s\<lparr>addresses := addresses s @ [address],
             utxos := (utxos s)(address \<mapsto> []),
             transactions := (transactions s)(address \<mapsto> []),
             mempool_txs := (mempool_txs s)(address \<mapsto> [])\<rparr>
      else s)"

text \<open>\<open>ws.close()\<close>: the socket starts closing; its \<open>close\<close> event comes later.\<close>

definition ws_close :: "nat \<Rightarrow> (nat \<rightharpoonup> socket) \<Rightarrow> (nat \<rightharpoonup> socket)" where
  "ws_close w socks =
     (case socks w of
        None \<Rightarrow> socks
      | Some sk \<Rightarrow> if sock_state sk = CLOSED then socks
                   else socks(w \<mapsto> sk\<lparr>sock_state := CLOSING\<rparr>))"

definition removeAddress :: "string \<Rightarrow> engine \<Rightarrow> engine" where
  "removeAddress address s =
     (let s1 = s\<lparr>addresses := filter (\<lambda>a. a \<noteq> address) (addresses s),
                 utxos := (utxos s)(address := None),
                 transactions := (transactions s)(address := None),
                 mempool_txs := (mempool_txs s)(address := None)\<rparr>
      in case websockets s1 address of
           None \<Rightarrow> s1
         | Some w \<Rightarrow> s1\<lparr>sockets := ws_close w (sockets s1),
                        websockets := (websockets s1)(address := None)\<rparr>)"

text \<open>\<open>response.data.map(...)\<close> with a callback that can throw.\<close>

fun map_throwing :: "('a \<Rightarrow> string + 'b) \<Rightarrow> 'a list \<Rightarrow> string + 'b list" where
  "map_throwing f [] = Inr []"
| "map_throwing f (x # xs) =
     (case f x of
        Inl m \<Rightarrow> Inl m
      | Inr y \<Rightarrow> (case map_throwing f xs of Inl m \<Rightarrow> Inl m | Inr ys \<Rightarrow> Inr (y # ys)))"

text \<open>The callback of \<open>fetchUtxos\<close>; reading \<open>utxo.status.confirmed\<close> of a missing
  status is a TypeError.\<close>

definition engine_utxo :: "api_utxo \<Rightarrow> string + utxo" where
  "engine_utxo a =
     (case au_status a of
        None \<Rightarrow> Inl ''TypeError: Cannot read properties of undefined''
      | Some st \<Rightarrow>
          Inr \<lparr>u_txid = au_txid a, u_vout = au_vout a, u_value = au_value a,
               u_confirmations =
                 (if st_confirmed st then (if truthy_num (st_block_height st) then 1 else 0) else 0),
               u_block_height = or_null (st_block_height st),
               u_block_time = or_null (st_block_time st),
               u_is_confirmed = st_confirmed st,
               u_is_pending = (\<not> st_confirmed st)\<rparr>)"

text \<open>
  \<open>this.emit('error', ...)\<close> in a catch block, followed by \<open>return fallback\<close>: with no
  listener registered the emit throws and the method's promise rejects. A thrown error is
  represented by a string standing for \<open>String(err)\<close>, here abbreviated.
\<close>

definition emit_error_then :: "engine \<Rightarrow> 'a \<Rightarrow> string + 'a" where
  "emit_error_then s fallback =
     (if error_listener s then Inr fallback else Inl ''Error: Unhandled error.'')"

text \<open>
  \<open>fetchUtxos(address)\<close> from the moment the indexer's answer arrives (\<open>Inl\<close>: the
  request failed with that message). The method reads and writes the engine only then.
\<close>

definition fetchUtxos_complete ::
  "string \<Rightarrow> string + api_utxo list \<Rightarrow> engine \<Rightarrow> engine \<times> (string + utxo list)" where
  "fetchUtxos_complete address response s =
     (case thenE response (map_throwing engine_utxo) of
        Inr us \<Rightarrow> (s\<lparr>utxos := (utxos s)(address \<mapsto> us)\<rparr>, Inr us)
      | Inl message \<Rightarrow> (s, emit_error_then s []))"

definition rx_amt_of :: "string \<Rightarrow> api_tx \<Rightarrow> int" where
  "rx_amt_of address tx =
     (case at_vout tx of
        None \<Rightarrow> 0
      | Some outs \<Rightarrow>
          foldl (\<lambda>sum out. sum + vo_value out) 0
            (filter (\<lambda>out. vo_scriptpubkey_address out = Some address) outs))"

definition mempool_entry :: "string \<Rightarrow> int \<Rightarrow> api_tx \<Rightarrow> mempool_tx" where
  "mempool_entry address now tx =
     (let rx_amt = rx_amt_of address tx
      in \<lparr>m_txid = at_txid tx, m_confirmations = 0, m_fee = at_fee tx, m_vsize = at_vsize tx,
          m_rbf = (case at_rbf tx of None \<Rightarrow> False | Some b \<Rightarrow> b),
          m_timestamp = now, m_status = ''mempool'',
          m_is_incoming = (rx_amt > 0), m_amount = rx_amt\<rparr>)"

text \<open>An object keyed by txid: a later entry with the same key replaces the earlier one.\<close>

definition fetchMempoolTxs_complete ::
  "string \<Rightarrow> string + api_tx list \<Rightarrow> int \<Rightarrow> engine
     \<Rightarrow> engine \<times> (string + (string \<times> mempool_tx) list)" where
  "fetchMempoolTxs_complete address response now s =
     (case response of
        Inr data \<Rightarrow>
          (let mempool =
                 foldl (\<lambda>acc tx. AList.update (at_txid tx) (mempool_entry address now tx) acc) [] data
           in (s\<lparr>mempool_txs := (mempool_txs s)(address \<mapsto> mempool)\<rparr>, Inr mempool))
      | Inl message \<Rightarrow> (s, emit_error_then s []))"

record balances =
  b_address :: string
  total_balance :: int
  spendable_balance :: int
  pending_balance :: int
  unspendable_balance :: int
  utxo_count :: nat
  mempool_tx_count :: nat
  last_updated :: int

definition calculateBalances :: "engine \<Rightarrow> string \<Rightarrow> int \<Rightarrow> balances" where
  "calculateBalances s address now =
     (let utxo_list = (case utxos s address of None \<Rightarrow> [] | Some us \<Rightarrow> us);
          mempool = (case mempool_txs s address of None \<Rightarrow> [] | Some m \<Rightarrow> m);
          (confirmed_balance, pending_balance) =
            foldl (\<lambda>(confirmed_balance, pending_balance) utxo.
                     if u_is_confirmed utxo
                        \<and> u_confirmations utxo \<ge> min_confirmations_spendable s
                     then (confirmed_balance + u_value utxo, pending_balance)
                     else if u_is_pending utxo
                     then (confirmed_balance, pending_balance + u_value utxo)
                     else (confirmed_balance, pending_balance))
                  (0, 0) utxo_list;
          pending_balance =
            foldl (\<lambda>pending_balance tx.
                     if m_is_incoming tx then pending_balance + m_amount tx else pending_balance)
                  pending_balance (map snd mempool);
          unspendable_balance =
            foldl (\<lambda>unspendable_balance utxo.
                     if u_is_confirmed utxo
                        \<and> u_confirmations utxo < min_confirmations_spendable s
                     then unspendable_balance + u_value utxo else unspendable_balance)
                  0 utxo_list
      in \<lparr>b_address = address,
          total_balance = confirmed_balance + pending_balance,
          spendable_balance = confirmed_balance,
          pending_balance = pending_balance,
          unspendable_balance = unspendable_balance,
          utxo_count = length utxo_list,
          mempool_tx_count = length mempool,
          last_updated = now\<rparr>)"

text \<open>
  \<open>startWebSocketMonitor(address)\<close>: the guard looks at \<open>this.websockets\<close> only. The
  handlers it installs on the new socket are the functions \<open>on_open\<close> and \<open>on_close\<close>
  below; the \<open>message\<close> handler ends in \<open>fetchMempoolTxs\<close>, modelled above, and the
  \<open>error\<close> handler only emits.
\<close>

definition startWebSocketMonitor :: "string \<Rightarrow> engine \<Rightarrow> engine" where
  "startWebSocketMonitor address s =
     (if websockets s address \<noteq> None then s
      else let ws = sockets_created s
           in s\<lparr>sockets_created := Suc ws,
                 sockets := (sockets s)(ws \<mapsto> \<lparr>sock_address = address, sock_state = CONNECTING\<rparr>),
                 websockets := (websockets s)(address \<mapsto> ws)\<rparr>)"

definition stopWebSocketMonitor :: "string \<Rightarrow> engine \<Rightarrow> engine" where
  "stopWebSocketMonitor address s =
     (case websockets s address of
        None \<Rightarrow> s
      | Some w \<Rightarrow> s\<lparr>sockets := ws_close w (sockets s),
                     websockets := (websockets s)(address := None)\<rparr>)"

text \<open>The \<open>open\<close> event of socket \<open>w\<close>: the handler subscribes and emits an event.\<close>

definition on_open :: "nat \<Rightarrow> engine \<Rightarrow> engine" where
  "on_open w s =
     (case sockets s w of
        None \<Rightarrow> s
      | Some sk \<Rightarrow> if sock_state sk = CONNECTING
                   then s\<lparr>sockets := (sockets s)(w \<mapsto> sk\<lparr>sock_state := OPEN\<rparr>)\<rparr> else s)"

text \<open>
  The \<open>close\<close> event of socket \<open>w\<close> (once per socket): the handler schedules
  \<open>startWebSocketMonitor(address)\<close> after 5000 ms, whatever closed the socket.
\<close>

definition on_close :: "nat \<Rightarrow> engine \<Rightarrow> engine" where
  "on_close w s =
     (case sockets s w of
        None \<Rightarrow> s
      | Some sk \<Rightarrow> if sock_state sk = CLOSED then s
                   else s\<lparr>sockets := (sockets s)(w \<mapsto> sk\<lparr>sock_state := CLOSED\<rparr>),
                          retry_timers := retry_timers s @ [sock_address sk]\<rparr>)"

text \<open>The oldest pending timer fires.\<close>

definition timer_fires :: "engine \<Rightarrow> engine" where
  "timer_fires s =
     (case retry_timers s of
        [] \<Rightarrow> s
      | address # rest \<Rightarrow> startWebSocketMonitor address (s\<lparr>retry_timers := rest\<rparr>))"



subsection \<open>GET /wallet/balance on the engine (wallet-routes.js)\<close>



text \<open>
  The JSON object that \<open>res.json(balance)\<close> sends: the keys of the object that
  \<open>calculateBalances\<close> returns, in its order. \<open>last_updated\<close>, an ISO date string in
  the source, is represented by the time it is taken from.
\<close>

datatype json_value = JNum int | JFrac rat | JStr string | JBool bool


subsection \<open>GET /wallet/balance without the engine (wallet-routes.js)\<close>








section \<open>UTXO route with the TTL cache (GET /utxos)\<close>

text \<open>The floating-point fields \<open>value_btc\<close> and \<open>fiat_usd\<close> are left out.\<close>

record route_utxo =
  r_txid :: string
  r_vout :: nat
  r_value_sat :: int
  r_status :: "api_status option"
  r_confirmations :: int
  r_block_height :: "nat option"
  r_block_time :: "nat option"
  r_is_confirmed :: bool
  r_is_pending :: bool
  r_is_spendable :: bool
  r_spendable_value :: int
  r_pending_value :: int
  r_effective_value :: int

definition status_confirmed :: "api_status option \<Rightarrow> bool" where
  "status_confirmed st = (case st of None \<Rightarrow> False | Some x \<Rightarrow> st_confirmed x)"

definition status_height :: "api_status option \<Rightarrow> nat option" where
  "status_height st = (case st of None \<Rightarrow> None | Some x \<Rightarrow> or_null (st_block_height x))"

definition status_time :: "api_status option \<Rightarrow> nat option" where
  "status_time st = (case st of None \<Rightarrow> None | Some x \<Rightarrow> or_null (st_block_time x))"

text \<open>The callback of \<open>response.data.map\<close> in GET /utxos.\<close>

definition normalize_utxo :: "api_utxo \<Rightarrow> route_utxo" where
  "normalize_utxo utxo =
     (let isConfirmed = status_confirmed (au_status utxo);
          valueSat = au_value utxo
      in \<lparr>r_txid = au_txid utxo, r_vout = au_vout utxo, r_value_sat = valueSat,
          r_status = au_status utxo,
          r_confirmations = (if isConfirmed then 1 else 0),
          r_block_height = status_height (au_status utxo),
          r_block_time = status_time (au_status utxo),
          r_is_confirmed = isConfirmed,
          r_is_pending = (\<not> isConfirmed),
          r_is_spendable = isConfirmed,
          r_spendable_value = (if isConfirmed then valueSat else 0),
          r_pending_value = (if \<not> isConfirmed then valueSat else 0),
          r_effective_value = max 0 (valueSat - 150)\<rparr>)"

text \<open>The callback of \<open>rawUtxos.map\<close> in GET /wallet/utxos of wallet-routes.js.\<close>

definition wallet_route_utxo :: "api_utxo \<Rightarrow> route_utxo" where
  "wallet_route_utxo u =
     (let isConfirmed = status_confirmed (au_status u);
          valueSat = au_value u
      in \<lparr>r_txid = au_txid u, r_vout = au_vout u, r_value_sat = valueSat,
          r_status = au_status u,
          r_confirmations = (if isConfirmed then 1 else 0),
          r_block_height = status_height (au_status u),
          r_block_time = status_time (au_status u),
          r_is_confirmed = isConfirmed,
          r_is_pending = (\<not> isConfirmed),
          r_is_spendable = isConfirmed,
          r_spendable_value = (if isConfirmed then valueSat else 0),
          r_pending_value = (if \<not> isConfirmed then valueSat else 0),
          r_effective_value = max 0 (valueSat - 150)\<rparr>)"













section \<open>Notions and concrete states used to state the engine's properties\<close>

text \<open>What \<open>calculateBalances\<close> and \<open>getFullStatus\<close> read: \<open>this.utxos[address] || []\<close>
  and the values of \<open>this.mempool_txs[address] || {}\<close>.\<close>

definition cached_utxos :: "engine \<Rightarrow> string \<Rightarrow> utxo list" where
  "cached_utxos s address = (case utxos s address of None \<Rightarrow> [] | Some us \<Rightarrow> us)"

definition cached_mempool :: "engine \<Rightarrow> string \<Rightarrow> mempool_tx list" where
  "cached_mempool s address = (case mempool_txs s address of None \<Rightarrow> [] | Some m \<Rightarrow> map snd m)"

text \<open>
  A monitored address and what the indexer reports for it: one unconfirmed payment of
  20000 sat, seen both in the unspent-output list and in the mempool transaction list;
  further a confirmed output reported without a block height, and one buried deep in the
  chain. \<open>refreshed\<close> is the engine after one fetch of each list; \<open>monitored\<close> has an
  open WebSocket for the address.
\<close>

definition watch_address :: string where
  "watch_address = ''tb1qwatch''"

definition seen_utxo :: api_utxo where
  "seen_utxo =
     \<lparr>au_txid = ''tx20k'', au_vout = 0, au_value = 20000,
      au_status = Some \<lparr>st_confirmed = False, st_block_height = None, st_block_time = None\<rparr>\<rparr>"

definition seen_tx :: api_tx where
  "seen_tx =
     \<lparr>at_txid = ''tx20k'', at_fee = 300, at_vsize = 150, at_rbf = None,
      at_vout = Some [\<lparr>vo_scriptpubkey_address = Some ''tb1qwatch'', vo_value = 20000\<rparr>]\<rparr>"

definition confirmed_no_height :: api_utxo where
  "confirmed_no_height =
     \<lparr>au_txid = ''tx50k'', au_vout = 1, au_value = 50000,
      au_status = Some \<lparr>st_confirmed = True, st_block_height = None, st_block_time = None\<rparr>\<rparr>"

definition deep_utxo :: api_utxo where
  "deep_utxo =
     \<lparr>au_txid = ''tx50k'', au_vout = 1, au_value = 50000,
      au_status = Some \<lparr>st_confirmed = True, st_block_height = Some 800000,
                        st_block_time = Some 1700000000\<rparr>\<rparr>"

definition watching :: engine where
  "watching = addAddress watch_address (new_engine ''testnet'')"

definition refreshed :: engine where
  "refreshed =
     fst (fetchMempoolTxs_complete watch_address (Inr [seen_tx]) 1000
       (fst (fetchUtxos_complete watch_address (Inr [seen_utxo]) watching)))"

definition monitored :: engine where
  "monitored = on_open 0 (startWebSocketMonitor watch_address watching)"











section \<open>Properties of the transaction builder\<close>

lemma tx1_fee_15: "tx1_fee_of 15 = 2250"
  by (simp add: tx1_fee_of_def)

lemma tx2_fee_15: "tx2_fee_of 15 = 3375"
  by (simp add: tx2_fee_of_def)

lemmas fsa_eval_defs = final_sequence_attack_def request_of_value_def lib_typical_def
  NETWORKS_def falsy_def validateWIF_def validateAddress_def build_candidate_def thenE_def
  addInput_def addOutput_def signInput_finalize_def extractTransaction_def new_Psbt_def
  tx1_fee_15 tx2_fee_15 scenario_body_def Let_def

lemma build_candidate_Inr:
  "build_candidate L wif utxo seq dest fee = Inr tx \<Longrightarrow>
     tx = \<lparr>psbt_ins = [\<lparr>in_hash = utxo_txid utxo, in_index = utxo_vout utxo, in_sequence = seq,
               in_witness_script = dest, in_witness_value = utxo_value utxo\<rparr>],
           psbt_outs = [\<lparr>out_address = dest, out_value = utxo_value utxo - fee\<rparr>]\<rparr>"
  by (auto simp: build_candidate_def thenE_def addInput_def addOutput_def new_Psbt_def
        signInput_finalize_def extractTransaction_def split: option.splits sum.splits)


lemma fsa_Ok:
  assumes "final_sequence_attack L req = Ok_json body"
  shows "\<exists>wif utxo victim attacker.
           fsa_wif req = Some wif \<and> fsa_utxo req = Some utxo \<and>
           fsa_victim_address req = Some victim \<and> fsa_attacker_address req = Some attacker \<and>
           build_candidate L wif utxo 0xffffffff victim
             (tx1_fee_of (case fsa_fee_rate req of None \<Rightarrow> 15 | Some r \<Rightarrow> r))
             = Inr (cand_tx (tx_merchant body)) \<and>
           build_candidate L wif utxo 0xfffffffe attacker
             (tx2_fee_of (case fsa_fee_rate req of None \<Rightarrow> 15 | Some r \<Rightarrow> r))
             = Inr (cand_tx (tx_attacker body)) \<and>
           cand_fee (tx_merchant body) = tx1_fee_of (case fsa_fee_rate req of None \<Rightarrow> 15 | Some r \<Rightarrow> r) \<and>
           cand_fee (tx_attacker body) = tx2_fee_of (case fsa_fee_rate req of None \<Rightarrow> 15 | Some r \<Rightarrow> r)"
  using assms
  by (auto simp: final_sequence_attack_def Let_def falsy_def thenE_def split: if_splits sum.splits)


lemma build_pairs_Inr:
  "build_pairs L wif ma aa idx us acc = Inr res \<Longrightarrow> list_all pair_ok acc \<Longrightarrow>
     list_all pair_ok res \<and>
     map inputs res = map inputs acc @
       map (\<lambda>u. \<lparr>shared_txid = utxo_txid u, shared_vout = utxo_vout u, shared_value = utxo_value u\<rparr>) us"
proof (induction us arbitrary: idx acc)
  case Nil
  then show ?case by simp
next
  case (Cons u rest)
  from Cons.prems(1) obtain tx1 tx2 where
    b1: "build_candidate L wif u 0xffffffff ma 3000 = Inr tx1" and
    b2: "build_candidate L wif u 0xfffffffe aa 5000 = Inr tx2" and
    rec: "build_pairs L wif ma aa (Suc idx) rest
            (acc @ [\<lparr>utxo_index = idx,
                  inputs = \<lparr>shared_txid = utxo_txid u, shared_vout = utxo_vout u,
                            shared_value = utxo_value u\<rparr>,
                  pair_merchant = \<lparr>pc_tx = tx1, pc_output = ma, pc_fee = 3000\<rparr>,
                  pair_attacker = \<lparr>pc_tx = tx2, pc_output = aa, pc_fee = 5000\<rparr>\<rparr>]) = Inr res"
    by (auto split: sum.splits)
  have "pair_ok \<lparr>utxo_index = idx,
                  inputs = \<lparr>shared_txid = utxo_txid u, shared_vout = utxo_vout u,
                            shared_value = utxo_value u\<rparr>,
                  pair_merchant = \<lparr>pc_tx = tx1, pc_output = ma, pc_fee = 3000\<rparr>,
                  pair_attacker = \<lparr>pc_tx = tx2, pc_output = aa, pc_fee = 5000\<rparr>\<rparr>"
    using build_candidate_Inr[OF b1] build_candidate_Inr[OF b2]
    by (simp add: pair_ok_def outpoint_def)
  with Cons.prems(2) have "list_all pair_ok (acc @ [\<lparr>utxo_index = idx,
                  inputs = \<lparr>shared_txid = utxo_txid u, shared_vout = utxo_vout u,
                            shared_value = utxo_value u\<rparr>,
                  pair_merchant = \<lparr>pc_tx = tx1, pc_output = ma, pc_fee = 3000\<rparr>,
                  pair_attacker = \<lparr>pc_tx = tx2, pc_output = aa, pc_fee = 5000\<rparr>\<rparr>])"
    by simp
  from Cons.IH[OF rec this] show ?case by simp
qed

lemma iie_Ok:
  assumes "identical_inputs_exploit L req = Ok_json pairs"
  shows "\<exists>us. iie_utxos req = Some us \<and> list_all pair_ok pairs \<and>
           map inputs pairs =
             map (\<lambda>u. \<lparr>shared_txid = utxo_txid u, shared_vout = utxo_vout u, shared_value = utxo_value u\<rparr>) us"
proof -
  from assms obtain wif ma aa us where
    u: "iie_utxos req = Some us" and
    b: "build_pairs L wif ma aa 0 us [] = Inr pairs"
    by (auto simp: identical_inputs_exploit_def Let_def split: if_splits sum.splits)
  from build_pairs_Inr[OF b] u show ?thesis by simp
qed

lemma fsa_run_100000:
  "final_sequence_attack lib_typical (request_of_value 100000) = Ok_json (scenario_body 100000 2250 3375)"
  by (simp add: fsa_eval_defs)



lemma iie_run:
  "identical_inputs_exploit lib_typical pairs_request = Ok_json pairs_body"
  by (simp add: identical_inputs_exploit_def pairs_request_def pairs_body_def lib_typical_def
        NETWORKS_def falsy_def validateWIF_def validateAddress_def build_candidate_def thenE_def
        addInput_def addOutput_def signInput_finalize_def extractTransaction_def new_Psbt_def Let_def)

text \<open>
  Claim C2. In every reply of the two handlers the candidate sent to the merchant has the
  single input sequence \<open>0xffffffff\<close>, the maximum. The candidate labelled
  ``RBF enabled'' has the single input sequence \<open>0xfffffffe\<close>: that is the threshold
  itself, not a value strictly below it, so the test ``sequence < 0xfffffffe'' is false on
  every input of every replaceable candidate.
\<close>

theorem replaceable_sequence_equals_threshold:
  "(final_sequence_attack L req = Ok_json body \<longrightarrow>
      map in_sequence (psbt_ins (cand_tx (tx_merchant body))) = [0xffffffff] \<and>
      map in_sequence (psbt_ins (cand_tx (tx_attacker body))) = [0xfffffffe] \<and>
      map (\<lambda>i. in_sequence i < 0xfffffffe) (psbt_ins (cand_tx (tx_attacker body))) = [False])
   \<and> (identical_inputs_exploit L' req' = Ok_json pairs \<longrightarrow>
      (\<forall>p \<in> set pairs.
         map in_sequence (psbt_ins (pc_tx (pair_merchant p))) = [0xffffffff] \<and>
         map in_sequence (psbt_ins (pc_tx (pair_attacker p))) = [0xfffffffe] \<and>
         map (\<lambda>i. in_sequence i < 0xfffffffe) (psbt_ins (pc_tx (pair_attacker p))) = [False]))"
proof (intro conjI impI)
  assume ok: "final_sequence_attack L req = Ok_json body"
  from fsa_Ok[OF ok] obtain wif utxo victim attacker fee1 fee2 where
    b1: "build_candidate L wif utxo 0xffffffff victim fee1 = Inr (cand_tx (tx_merchant body))" and
    b2: "build_candidate L wif utxo 0xfffffffe attacker fee2 = Inr (cand_tx (tx_attacker body))"
    by blast
  show "map in_sequence (psbt_ins (cand_tx (tx_merchant body))) = [0xffffffff]"
    by (subst build_candidate_Inr[OF b1]) simp
  show "map in_sequence (psbt_ins (cand_tx (tx_attacker body))) = [0xfffffffe]"
    by (subst build_candidate_Inr[OF b2]) simp
  show "map (\<lambda>i. in_sequence i < 0xfffffffe) (psbt_ins (cand_tx (tx_attacker body))) = [False]"
    by (subst build_candidate_Inr[OF b2]) simp
next
  assume ok: "identical_inputs_exploit L' req' = Ok_json pairs"
  from iie_Ok[OF ok] have all: "list_all pair_ok pairs" by blast
  show "\<forall>p \<in> set pairs.
         map in_sequence (psbt_ins (pc_tx (pair_merchant p))) = [0xffffffff] \<and>
         map in_sequence (psbt_ins (pc_tx (pair_attacker p))) = [0xfffffffe] \<and>
         map (\<lambda>i. in_sequence i < 0xfffffffe) (psbt_ins (pc_tx (pair_attacker p))) = [False]"
  proof
    fix p assume "p \<in> set pairs"
    with all have ok_p: "pair_ok p" by (simp add: list_all_iff)
    then have att: "map in_sequence (psbt_ins (pc_tx (pair_attacker p))) = [0xfffffffe]"
      by (simp add: pair_ok_def)
    have "map (\<lambda>i. in_sequence i < 0xfffffffe) (psbt_ins (pc_tx (pair_attacker p)))
            = map (\<lambda>s. s < 0xfffffffe) (map in_sequence (psbt_ins (pc_tx (pair_attacker p))))"
      by (simp add: comp_def)
    also have "\<dots> = [False]" by (simp add: att)
    finally show "map in_sequence (psbt_ins (pc_tx (pair_merchant p))) = [0xffffffff] \<and>
         map in_sequence (psbt_ins (pc_tx (pair_attacker p))) = [0xfffffffe] \<and>
         map (\<lambda>i. in_sequence i < 0xfffffffe) (psbt_ins (pc_tx (pair_attacker p))) = [False]"
      using ok_p by (simp add: pair_ok_def)
  qed
qed

theorem replaceable_sequence_equals_threshold_witness:
  "final_sequence_attack lib_typical (request_of_value 100000) = Ok_json (scenario_body 100000 2250 3375) \<and>
   map in_sequence (psbt_ins (cand_tx (tx_attacker (scenario_body 100000 2250 3375)))) = [0xfffffffe] \<and>
   map (\<lambda>i. in_sequence i < 0xfffffffe) (psbt_ins (cand_tx (tx_attacker (scenario_body 100000 2250 3375)))) = [False] \<and>
   identical_inputs_exploit lib_typical pairs_request = Ok_json pairs_body \<and>
   list_all (\<lambda>p. map (\<lambda>i. in_sequence i < 0xfffffffe) (psbt_ins (pc_tx (pair_attacker p))) = [False]) pairs_body"
  using replaceable_sequence_equals_threshold
    [of lib_typical "request_of_value 100000" "scenario_body 100000 2250 3375"
        lib_typical pairs_request pairs_body]
    fsa_run_100000 iie_run
  by (simp add: list_all_iff)

text \<open>
  Claim C3. Every candidate in a reply of the two handlers has output values that, added
  to the fee reported for it, give the value of the unspent output exactly, and both
  candidates of a pair spend the one outpoint (txid, vout) of the request's unspent output.
\<close>

theorem candidates_conserve_value_and_share_outpoint:
  "(final_sequence_attack L req = Ok_json body \<longrightarrow>
      (\<exists>u. fsa_utxo req = Some u \<and>
         sum_list (map out_value (psbt_outs (cand_tx (tx_merchant body)))) + cand_fee (tx_merchant body)
           = utxo_value u \<and>
         sum_list (map out_value (psbt_outs (cand_tx (tx_attacker body)))) + cand_fee (tx_attacker body)
           = utxo_value u \<and>
         map outpoint (psbt_ins (cand_tx (tx_merchant body))) = [(utxo_txid u, utxo_vout u)] \<and>
         map outpoint (psbt_ins (cand_tx (tx_attacker body))) = [(utxo_txid u, utxo_vout u)]))
   \<and> (identical_inputs_exploit L' req' = Ok_json pairs \<longrightarrow>
      (\<exists>us. iie_utxos req' = Some us \<and>
         map inputs pairs =
           map (\<lambda>u. \<lparr>shared_txid = utxo_txid u, shared_vout = utxo_vout u,
                      shared_value = utxo_value u\<rparr>) us \<and>
         (\<forall>p \<in> set pairs.
            sum_list (map out_value (psbt_outs (pc_tx (pair_merchant p)))) + pc_fee (pair_merchant p)
              = shared_value (inputs p) \<and>
            sum_list (map out_value (psbt_outs (pc_tx (pair_attacker p)))) + pc_fee (pair_attacker p)
              = shared_value (inputs p) \<and>
            map outpoint (psbt_ins (pc_tx (pair_merchant p)))
              = [(shared_txid (inputs p), shared_vout (inputs p))] \<and>
            map outpoint (psbt_ins (pc_tx (pair_attacker p)))
              = [(shared_txid (inputs p), shared_vout (inputs p))])))"
proof (intro conjI impI)
  assume ok: "final_sequence_attack L req = Ok_json body"
  from fsa_Ok[OF ok] obtain wif utxo victim attacker fee1 fee2 where
    u: "fsa_utxo req = Some utxo" and
    b1: "build_candidate L wif utxo 0xffffffff victim fee1 = Inr (cand_tx (tx_merchant body))" and
    b2: "build_candidate L wif utxo 0xfffffffe attacker fee2 = Inr (cand_tx (tx_attacker body))" and
    f1: "cand_fee (tx_merchant body) = fee1" and f2: "cand_fee (tx_attacker body) = fee2"
    by blast
  have "sum_list (map out_value (psbt_outs (cand_tx (tx_merchant body)))) + fee1 = utxo_value utxo"
    by (subst build_candidate_Inr[OF b1]) simp
  moreover
  have "sum_list (map out_value (psbt_outs (cand_tx (tx_attacker body)))) + fee2 = utxo_value utxo"
    by (subst build_candidate_Inr[OF b2]) simp
  moreover
  have "map outpoint (psbt_ins (cand_tx (tx_merchant body))) = [(utxo_txid utxo, utxo_vout utxo)]"
    by (subst build_candidate_Inr[OF b1]) (simp add: outpoint_def)
  moreover
  have "map outpoint (psbt_ins (cand_tx (tx_attacker body))) = [(utxo_txid utxo, utxo_vout utxo)]"
    by (subst build_candidate_Inr[OF b2]) (simp add: outpoint_def)
  ultimately
  show "\<exists>u. fsa_utxo req = Some u \<and>
         sum_list (map out_value (psbt_outs (cand_tx (tx_merchant body)))) + cand_fee (tx_merchant body)
           = utxo_value u \<and>
         sum_list (map out_value (psbt_outs (cand_tx (tx_attacker body)))) + cand_fee (tx_attacker body)
           = utxo_value u \<and>
         map outpoint (psbt_ins (cand_tx (tx_merchant body))) = [(utxo_txid u, utxo_vout u)] \<and>
         map outpoint (psbt_ins (cand_tx (tx_attacker body))) = [(utxo_txid u, utxo_vout u)]"
    using u f1 f2 by simp
next
  assume ok: "identical_inputs_exploit L' req' = Ok_json pairs"
  from iie_Ok[OF ok] obtain us where
    u: "iie_utxos req' = Some us" and all: "list_all pair_ok pairs" and
    ins: "map inputs pairs =
           map (\<lambda>u. \<lparr>shared_txid = utxo_txid u, shared_vout = utxo_vout u,
                      shared_value = utxo_value u\<rparr>) us"
    by blast
  from all have "\<forall>p \<in> set pairs.
            sum_list (map out_value (psbt_outs (pc_tx (pair_merchant p)))) + pc_fee (pair_merchant p)
              = shared_value (inputs p) \<and>
            sum_list (map out_value (psbt_outs (pc_tx (pair_attacker p)))) + pc_fee (pair_attacker p)
              = shared_value (inputs p) \<and>
            map outpoint (psbt_ins (pc_tx (pair_merchant p)))
              = [(shared_txid (inputs p), shared_vout (inputs p))] \<and>
            map outpoint (psbt_ins (pc_tx (pair_attacker p)))
              = [(shared_txid (inputs p), shared_vout (inputs p))]"
    by (simp add: list_all_iff pair_ok_def)
  with u ins show "\<exists>us. iie_utxos req' = Some us \<and>
         map inputs pairs =
           map (\<lambda>u. \<lparr>shared_txid = utxo_txid u, shared_vout = utxo_vout u,
                      shared_value = utxo_value u\<rparr>) us \<and>
         (\<forall>p \<in> set pairs.
            sum_list (map out_value (psbt_outs (pc_tx (pair_merchant p)))) + pc_fee (pair_merchant p)
              = shared_value (inputs p) \<and>
            sum_list (map out_value (psbt_outs (pc_tx (pair_attacker p)))) + pc_fee (pair_attacker p)
              = shared_value (inputs p) \<and>
            map outpoint (psbt_ins (pc_tx (pair_merchant p)))
              = [(shared_txid (inputs p), shared_vout (inputs p))] \<and>
            map outpoint (psbt_ins (pc_tx (pair_attacker p)))
              = [(shared_txid (inputs p), shared_vout (inputs p))])"
    by blast
qed

theorem candidates_conserve_value_and_share_outpoint_witness:
  "final_sequence_attack lib_typical (request_of_value 100000) = Ok_json (scenario_body 100000 2250 3375) \<and>
   sum_list (map out_value (psbt_outs (cand_tx (tx_merchant (scenario_body 100000 2250 3375)))))
     + cand_fee (tx_merchant (scenario_body 100000 2250 3375)) = 100000 \<and>
   sum_list (map out_value (psbt_outs (cand_tx (tx_attacker (scenario_body 100000 2250 3375)))))
     + cand_fee (tx_attacker (scenario_body 100000 2250 3375)) = 100000 \<and>
   map outpoint (psbt_ins (cand_tx (tx_merchant (scenario_body 100000 2250 3375)))) = [(''ab12'', 0)] \<and>
   map outpoint (psbt_ins (cand_tx (tx_attacker (scenario_body 100000 2250 3375)))) = [(''ab12'', 0)] \<and>
   identical_inputs_exploit lib_typical pairs_request = Ok_json pairs_body \<and>
   map (\<lambda>p. sum_list (map out_value (psbt_outs (pc_tx (pair_attacker p)))) + pc_fee (pair_attacker p))
     pairs_body = [100000, 50000]"
  using candidates_conserve_value_and_share_outpoint
    [of lib_typical "request_of_value 100000" "scenario_body 100000 2250 3375"
        lib_typical pairs_request pairs_body]
    fsa_run_100000 iie_run
  by (simp add: request_of_value_def pairs_request_def pairs_body_def)




text \<open>
  Claim C9 (scenario A). For an input of 100000 sat and fee rate 15 (given or defaulted),
  every reply has candidate 1 with fee 2250 and output 97750, candidate 2 with fee 3375
  and output 96625, and both candidates spend the request's outpoint.
\<close>

theorem scenario_a_fees_and_outputs:
  assumes "fsa_utxo req = Some u" and "utxo_value u = 100000"
    and "fsa_fee_rate req = Some 15 \<or> fsa_fee_rate req = None"
    and "final_sequence_attack L req = Ok_json body"
  shows "cand_fee (tx_merchant body) = 2250 \<and>
         map out_value (psbt_outs (cand_tx (tx_merchant body))) = [97750] \<and>
         cand_fee (tx_attacker body) = 3375 \<and>
         map out_value (psbt_outs (cand_tx (tx_attacker body))) = [96625] \<and>
         map outpoint (psbt_ins (cand_tx (tx_merchant body))) = [(utxo_txid u, utxo_vout u)] \<and>
         map outpoint (psbt_ins (cand_tx (tx_attacker body))) = [(utxo_txid u, utxo_vout u)]"
proof -
  from assms(3) have rate: "(case fsa_fee_rate req of None \<Rightarrow> 15 | Some r \<Rightarrow> r) = 15"
    by auto
  from fsa_Ok[OF assms(4)] assms(1) rate obtain wif victim attacker where
    b1: "build_candidate L wif u 0xffffffff victim (tx1_fee_of 15) = Inr (cand_tx (tx_merchant body))" and
    b2: "build_candidate L wif u 0xfffffffe attacker (tx2_fee_of 15) = Inr (cand_tx (tx_attacker body))" and
    f1: "cand_fee (tx_merchant body) = tx1_fee_of 15" and
    f2: "cand_fee (tx_attacker body) = tx2_fee_of 15"
    by auto
  have "map out_value (psbt_outs (cand_tx (tx_merchant body))) = [97750]"
    by (subst build_candidate_Inr[OF b1]) (simp add: assms(2) tx1_fee_15)
  moreover
  have "map out_value (psbt_outs (cand_tx (tx_attacker body))) = [96625]"
    by (subst build_candidate_Inr[OF b2]) (simp add: assms(2) tx2_fee_15)
  moreover
  have "map outpoint (psbt_ins (cand_tx (tx_merchant body))) = [(utxo_txid u, utxo_vout u)]"
    by (subst build_candidate_Inr[OF b1]) (simp add: outpoint_def)
  moreover
  have "map outpoint (psbt_ins (cand_tx (tx_attacker body))) = [(utxo_txid u, utxo_vout u)]"
    by (subst build_candidate_Inr[OF b2]) (simp add: outpoint_def)
  ultimately show ?thesis
    using f1 f2 by (simp add: tx1_fee_15 tx2_fee_15)
qed

theorem scenario_a_fees_and_outputs_witness:
  "final_sequence_attack lib_typical (request_of_value 100000) = Ok_json (scenario_body 100000 2250 3375) \<and>
   cand_fee (tx_merchant (scenario_body 100000 2250 3375)) = 2250 \<and>
   map out_value (psbt_outs (cand_tx (tx_merchant (scenario_body 100000 2250 3375)))) = [97750] \<and>
   cand_fee (tx_attacker (scenario_body 100000 2250 3375)) = 3375 \<and>
   map out_value (psbt_outs (cand_tx (tx_attacker (scenario_body 100000 2250 3375)))) = [96625] \<and>
   map outpoint (psbt_ins (cand_tx (tx_merchant (scenario_body 100000 2250 3375)))) = [(''ab12'', 0)] \<and>
   map outpoint (psbt_ins (cand_tx (tx_attacker (scenario_body 100000 2250 3375)))) = [(''ab12'', 0)]"
  using scenario_a_fees_and_outputs
    [of "request_of_value 100000" "\<lparr>utxo_txid = ''ab12'', utxo_vout = 0, utxo_value = 100000\<rparr>"
        lib_typical "scenario_body 100000 2250 3375"]
    fsa_run_100000
  by (simp add: request_of_value_def)

section \<open>Properties of the wallet engine and the UTXO route\<close>

lemmas engine_eval_defs = watch_address_def seen_utxo_def seen_tx_def watching_def refreshed_def
  addAddress_def new_engine_def fetchUtxos_complete_def fetchMempoolTxs_complete_def thenE_def
  engine_utxo_def truthy_num_def or_null_def mempool_entry_def rx_amt_of_def
  calculateBalances_def Let_def

lemma refreshed_pending: "pending_balance (calculateBalances refreshed watch_address 2000) = 40000"
  by (simp add: engine_eval_defs)

lemma foldl_utxo_buckets:
  "foldl (\<lambda>(c, p) utxo.
            if A utxo then (c + u_value utxo, p)
            else if B utxo then (c, p + u_value utxo) else (c, p)) (c0, p0) us
   = (c0 + sum_list (map u_value (filter A us)),
      p0 + sum_list (map u_value (filter (\<lambda>u. \<not> A u \<and> B u) us)))"
  by (induction us arbitrary: c0 p0) auto

lemma foldl_incoming:
  "foldl (\<lambda>p tx. if m_is_incoming tx then p + m_amount tx else p) p0 txs
   = p0 + sum_list (map m_amount (filter m_is_incoming txs))"
  by (induction txs arbitrary: p0) auto

lemma foldl_unspendable:
  "foldl (\<lambda>acc utxo. if C utxo then acc + u_value utxo else acc) a0 us
   = a0 + sum_list (map u_value (filter C us))"
  by (induction us arbitrary: a0) auto

lemma calculateBalances_sums:
  "calculateBalances s address now =
     \<lparr>b_address = address,
      total_balance =
        sum_list (map u_value (filter (\<lambda>u. u_is_confirmed u \<and> min_confirmations_spendable s \<le> u_confirmations u) (cached_utxos s address)))
        + (sum_list (map u_value (filter (\<lambda>u. \<not> (u_is_confirmed u \<and> min_confirmations_spendable s \<le> u_confirmations u) \<and> u_is_pending u) (cached_utxos s address)))
           + sum_list (map m_amount (filter m_is_incoming (cached_mempool s address)))),
      spendable_balance =
        sum_list (map u_value (filter (\<lambda>u. u_is_confirmed u \<and> min_confirmations_spendable s \<le> u_confirmations u) (cached_utxos s address))),
      pending_balance =
        sum_list (map u_value (filter (\<lambda>u. \<not> (u_is_confirmed u \<and> min_confirmations_spendable s \<le> u_confirmations u) \<and> u_is_pending u) (cached_utxos s address)))
        + sum_list (map m_amount (filter m_is_incoming (cached_mempool s address))),
      unspendable_balance =
        sum_list (map u_value (filter (\<lambda>u. u_is_confirmed u \<and> u_confirmations u < min_confirmations_spendable s) (cached_utxos s address))),
      utxo_count = length (cached_utxos s address),
      mempool_tx_count = length (cached_mempool s address),
      last_updated = now\<rparr>"
  unfolding calculateBalances_def cached_utxos_def cached_mempool_def Let_def
    foldl_utxo_buckets foldl_incoming foldl_unspendable
  by (simp split: option.splits)




lemmas socket_defs = startWebSocketMonitor_def removeAddress_def ws_close_def on_open_def
  on_close_def timer_fires_def Let_def

text \<open>
  Claim C5. The claim says that no reconnection follows \<open>removeAddress\<close>. The code does
  reconnect: when the address has an open socket and no timer is pending, then after
  \<open>removeAddress\<close> the \<open>close\<close> event of the socket it released schedules a retry
  for the address, and when that timer fires \<open>startWebSocketMonitor\<close> finds no entry in
  \<open>websockets\<close> and creates a new socket for the address, which is no longer in
  \<open>addresses\<close>.
\<close>

theorem removed_address_is_reconnected:
  assumes "websockets s address = Some w"
    and "sockets s w = Some sk" and "sock_address sk = address" and "sock_state sk = OPEN"
    and "retry_timers s = []"
  shows "address \<notin> set (addresses (timer_fires (on_close w (removeAddress address s)))) \<and>
         websockets (removeAddress address s) address = None \<and>
         retry_timers (on_close w (removeAddress address s)) = [address] \<and>
         websockets (timer_fires (on_close w (removeAddress address s))) address
           = Some (sockets_created s) \<and>
         sockets (timer_fires (on_close w (removeAddress address s))) (sockets_created s)
           = Some \<lparr>sock_address = address, sock_state = CONNECTING\<rparr>"
  using assms by (simp add: socket_defs)

theorem removed_address_is_reconnected_witness:
  "websockets monitored watch_address = Some 0 \<and>
   sockets monitored 0 = Some \<lparr>sock_address = watch_address, sock_state = OPEN\<rparr> \<and>
   retry_timers monitored = [] \<and>
   watch_address \<notin> set (addresses (timer_fires (on_close 0 (removeAddress watch_address monitored)))) \<and>
   websockets (timer_fires (on_close 0 (removeAddress watch_address monitored))) watch_address = Some 1 \<and>
   sockets (timer_fires (on_close 0 (removeAddress watch_address monitored))) 1
     = Some \<lparr>sock_address = watch_address, sock_state = CONNECTING\<rparr>"
proof -
  have m: "websockets monitored watch_address = Some 0"
    "sockets monitored 0 = Some \<lparr>sock_address = watch_address, sock_state = OPEN\<rparr>"
    "retry_timers monitored = []" "sockets_created monitored = 1"
    by (simp_all add: monitored_def watching_def addAddress_def new_engine_def socket_defs)
  from removed_address_is_reconnected
         [of monitored watch_address 0 "\<lparr>sock_address = watch_address, sock_state = OPEN\<rparr>"] m
  show ?thesis by simp
qed













text \<open>
  Claim C10 as stated fails in its parenthesis: for an output the indexer reports as
  confirmed without a block height, the two route normalizers give \<open>confirmations = 1\<close>
  (only the engine gives 0).
\<close>

theorem route_confirmations_ignore_block_height_counterexample:
  "r_confirmations (normalize_utxo confirmed_no_height) = 1 \<and>
   r_confirmations (wallet_route_utxo confirmed_no_height) = 1 \<and>
   map_sum id u_confirmations (engine_utxo confirmed_no_height) = Inr 0"
  by (simp add: confirmed_no_height_def normalize_utxo_def wallet_route_utxo_def
        status_confirmed_def engine_utxo_def truthy_num_def)

lemma map_throwing_Inr:
  "map_throwing f xs = Inr ys \<Longrightarrow> list_all2 (\<lambda>x y. f x = Inr y) xs ys"
  by (induction xs arbitrary: ys) (auto split: sum.splits)

lemma engine_utxo_confirmations:
  "engine_utxo a = Inr u \<Longrightarrow>
     (u_confirmations u = 0 \<or> u_confirmations u = 1) \<and>
     (u_confirmations u = 1 \<longleftrightarrow>
        (\<exists>st. au_status a = Some st \<and> st_confirmed st \<and> truthy_num (st_block_height st)))"
  by (auto simp: engine_utxo_def split: option.splits if_splits)

lemma fetched_confirmations_le_1:
  assumes "map_throwing engine_utxo data = Inr us"
  shows "list_all (\<lambda>u. u_confirmations u = 0 \<or> u_confirmations u = 1) us"
proof -
  from map_throwing_Inr[OF assms] have "list_all2 (\<lambda>x y. engine_utxo x = Inr y) data us" .
  then show ?thesis
    by (induction rule: list_all2_induct) (auto dest: engine_utxo_confirmations)
qed

text \<open>
  Claim C10, amended. Every normalized record has \<open>confirmations\<close> 0 or 1, never a depth:
  in the engine it is 1 exactly when the status is confirmed with a truthy block height,
  in the normalizers of GET /utxos and GET /wallet/utxos exactly when the status is
  confirmed. So with a spendable threshold above 1, no freshly fetched output of the
  engine reaches the threshold and the spendable balance computed from it is 0.
\<close>

theorem confirmations_are_zero_or_one:
  "(engine_utxo a = Inr u \<longrightarrow>
      (u_confirmations u = 0 \<or> u_confirmations u = 1) \<and>
      (u_confirmations u = 1 \<longleftrightarrow>
         (\<exists>st. au_status a = Some st \<and> st_confirmed st \<and> truthy_num (st_block_height st)))) \<and>
   r_confirmations (normalize_utxo a) = (if status_confirmed (au_status a) then 1 else 0) \<and>
   r_confirmations (wallet_route_utxo a) = (if status_confirmed (au_status a) then 1 else 0) \<and>
   (map_throwing engine_utxo data = Inr us \<longrightarrow>
      1 < min_confirmations_spendable s \<longrightarrow>
      snd (fetchUtxos_complete address (Inr data) s) = Inr us \<and>
      list_all (\<lambda>u. u_confirmations u < min_confirmations_spendable s) us \<and>
      spendable_balance
        (calculateBalances (fst (fetchUtxos_complete address (Inr data) s)) address now) = 0)"
proof (intro conjI impI)
  assume "engine_utxo a = Inr u"
  from engine_utxo_confirmations[OF this]
  show "u_confirmations u = 0 \<or> u_confirmations u = 1"
    and "u_confirmations u = 1 \<longleftrightarrow>
         (\<exists>st. au_status a = Some st \<and> st_confirmed st \<and> truthy_num (st_block_height st))"
    by blast+
next
  show "r_confirmations (normalize_utxo a) = (if status_confirmed (au_status a) then 1 else 0)"
    by (simp add: normalize_utxo_def Let_def)
  show "r_confirmations (wallet_route_utxo a) = (if status_confirmed (au_status a) then 1 else 0)"
    by (simp add: wallet_route_utxo_def Let_def)
next
  assume m: "map_throwing engine_utxo data = Inr us"
    and thr: "1 < min_confirmations_spendable s"
  from m have f: "fetchUtxos_complete address (Inr data) s
                    = (s\<lparr>utxos := (utxos s)(address \<mapsto> us)\<rparr>, Inr us)"
    by (simp add: fetchUtxos_complete_def thenE_def)
  then show "snd (fetchUtxos_complete address (Inr data) s) = Inr us"
    by simp
  from fetched_confirmations_le_1[OF m] thr
  show small: "list_all (\<lambda>u. u_confirmations u < min_confirmations_spendable s) us"
    by (auto simp: list_all_iff)
  have "filter (\<lambda>u. u_is_confirmed u \<and> min_confirmations_spendable s \<le> u_confirmations u) us = []"
    using small by (auto simp: list_all_iff filter_empty_conv)
  then show "spendable_balance
        (calculateBalances (fst (fetchUtxos_complete address (Inr data) s)) address now) = 0"
    by (simp add: calculateBalances_sums f cached_utxos_def)
qed

theorem confirmations_are_zero_or_one_witness:
  "engine_utxo deep_utxo =
     Inr \<lparr>u_txid = ''tx50k'', u_vout = 1, u_value = 50000, u_confirmations = 1,
          u_block_height = Some 800000, u_block_time = Some 1700000000,
          u_is_confirmed = True, u_is_pending = False\<rparr> \<and>
   r_confirmations (normalize_utxo deep_utxo) = 1 \<and>
   1 < min_confirmations_spendable (watching\<lparr>min_confirmations_spendable := 6\<rparr>) \<and>
   spendable_balance
     (calculateBalances
        (fst (fetchUtxos_complete watch_address (Inr [deep_utxo])
                (watching\<lparr>min_confirmations_spendable := 6\<rparr>))) watch_address 2000) = 0 \<and>
   unspendable_balance
     (calculateBalances
        (fst (fetchUtxos_complete watch_address (Inr [deep_utxo])
                (watching\<lparr>min_confirmations_spendable := 6\<rparr>))) watch_address 2000) = 50000"
proof -
  have e: "engine_utxo deep_utxo =
     Inr \<lparr>u_txid = ''tx50k'', u_vout = 1, u_value = 50000, u_confirmations = 1,
          u_block_height = Some 800000, u_block_time = Some 1700000000,
          u_is_confirmed = True, u_is_pending = False\<rparr>"
    by (simp add: deep_utxo_def engine_utxo_def truthy_num_def or_null_def)
  have u: "unspendable_balance
     (calculateBalances
        (fst (fetchUtxos_complete watch_address (Inr [deep_utxo])
                (watching\<lparr>min_confirmations_spendable := 6\<rparr>))) watch_address 2000) = 50000"
    by (simp add: engine_eval_defs deep_utxo_def)
  from confirmations_are_zero_or_one
         [of deep_utxo "\<lparr>u_txid = ''tx50k'', u_vout = 1, u_value = 50000, u_confirmations = 1,
          u_block_height = Some 800000, u_block_time = Some 1700000000,
          u_is_confirmed = True, u_is_pending = False\<rparr>" "[deep_utxo]"
          "[\<lparr>u_txid = ''tx50k'', u_vout = 1, u_value = 50000, u_confirmations = 1,
          u_block_height = Some 800000, u_block_time = Some 1700000000,
          u_is_confirmed = True, u_is_pending = False\<rparr>]"
          "watching\<lparr>min_confirmations_spendable := 6\<rparr>" watch_address 2000] e u
  show ?thesis
    by (simp add: deep_utxo_def normalize_utxo_def status_confirmed_def)
qed



















end
